theory Spec2Isabelle
  imports Complex_Main "HOL-Library.Log_Nat"
begin

section \<open>Quote calculator and intake form of Common Notary Apostille\<close>

text \<open>
  The development embeds \<^verbatim>\<open>src/app.js\<close> (the current intake form script) and the
  older calculator of \<^verbatim>\<open>src/unnamed/part_001\<close>. The script keeps its state in the
  page: the form controls it reads, the quote lines it writes and the variable
  \<^verbatim>\<open>currentStep\<close>. The page is a record that every handler takes and returns.

  The first part computes in exact arithmetic: prices are rationals and parsed counts
  are unbounded integers. This is the arithmetic of the design (amounts at full
  precision, rounded at presentation only); every price of the catalogue is an integer
  but the discount factor \<open>0.15\<close>, so no exact amount has more than two decimals. The
  script itself computes in IEEE doubles: the section on machine arithmetic embeds the
  same functions over doubles, and the invariant of the total is stated there. A
  property value that the
  script looks up by a key (\<^verbatim>\<open>PRICING.urgency[urgency]\<close>) is \<open>undefined\<close> for a key the
  table does not have: the tables are association lists read by \<open>map_of\<close>, and keys
  are the option values of the form (names inherited from \<^verbatim>\<open>Object.prototype\<close> are
  not among them).
\<close>

subsection \<open>The pricing configuration\<close>

definition PRICING_apostille :: "(string \<times> rat) list" where
  "PRICING_apostille =
     [(''nj'', 447), (''dmv'', 397), (''tn'', 347), (''swva'', 297), (''federal'', 497)]"

definition PRICING_poa_base :: rat where "PRICING_poa_base = 115"
definition PRICING_poa_perDoc :: rat where "PRICING_poa_perDoc = 25"
definition PRICING_trust_base :: rat where "PRICING_trust_base = 125"
definition PRICING_trust_perDoc :: rat where "PRICING_trust_perDoc = 35"
definition PRICING_loan_base :: rat where "PRICING_loan_base = 80"
definition PRICING_loan_perDoc :: rat where "PRICING_loan_perDoc = 15"
definition PRICING_hospital_base :: rat where "PRICING_hospital_base = 100"
definition PRICING_hospital_perDoc :: rat where "PRICING_hospital_perDoc = 25"

definition PRICING_remote_base :: rat where "PRICING_remote_base = 649"
definition PRICING_remote_overagePerHour :: rat where "PRICING_remote_overagePerHour = 150"

definition PRICING_recording_audio :: rat where "PRICING_recording_audio = 149"
definition PRICING_recording_audio_video :: rat where "PRICING_recording_audio_video = 199"
definition PRICING_recording_timestamp :: rat where "PRICING_recording_timestamp = 49"
definition PRICING_recording_same_day_delivery :: rat where
  "PRICING_recording_same_day_delivery = 75"
definition PRICING_recording_24hr_delivery :: rat where
  "PRICING_recording_24hr_delivery = 45"
definition PRICING_recording_archive_monthly :: rat where
  "PRICING_recording_archive_monthly = 25"
definition PRICING_recording_archive_yearly :: rat where
  "PRICING_recording_archive_yearly = 99"

definition PRICING_complexity :: "(string \<times> rat) list" where
  "PRICING_complexity =
     [(''heavy_exhibits'', 99), (''multi_party'', 75), (''interpreter'', 75),
      (''second_tech'', 199)]"

definition PRICING_remoteUrgency :: "(string \<times> rat) list" where
  "PRICING_remoteUrgency =
     [(''rush_booking'', 125), (''same_day_booking'', 199), (''after_hours'', 150),
      (''weekend_holiday'', 199)]"

definition PRICING_certified_reporter_coordination :: rat where
  "PRICING_certified_reporter_coordination = 125"

definition PRICING_urgency :: "(string \<times> rat) list" where
  "PRICING_urgency = [(''standard'', 0), (''expedited'', 75), (''rush'', 150)]"

definition PRICING_delivery :: "(string \<times> rat) list" where
  "PRICING_delivery =
     [(''pickup'', 0), (''standard_mail'', 15), (''express'', 35), (''international'', 75)]"

definition PRICING_location :: "(string \<times> rat) list" where
  "PRICING_location = [(''office'', 0), (''mobile'', 25), (''hospital'', 25)]"

definition PRICING_additionalDocDiscount :: rat where
  "PRICING_additionalDocDiscount = 15 / 100"

subsection \<open>JavaScript operators on looked-up values\<close>

text \<open>
  \<open>truthy v\<close> is the truth value of a looked-up number (\<open>undefined\<close> and \<open>0\<close> are
  falsy), \<open>orElse v d\<close> is \<^verbatim>\<open>v || d\<close> on numbers, \<open>orElseStr\<close> and \<open>orElseInt\<close> are
  \<^verbatim>\<open>||\<close> on a string that may be \<open>undefined\<close> and on the result of \<open>parseInt\<close>
  (\<open>None\<close> is \<open>NaN\<close>).
\<close>

definition truthy :: "rat option \<Rightarrow> bool" where
  "truthy v = (case v of None \<Rightarrow> False | Some x \<Rightarrow> x \<noteq> 0)"

definition orElse :: "rat option \<Rightarrow> rat \<Rightarrow> rat" where
  "orElse v d = (case v of None \<Rightarrow> d | Some x \<Rightarrow> if x = 0 then d else x)"

definition orElseStr :: "string option \<Rightarrow> string \<Rightarrow> string" where
  "orElseStr v d = (case v of None \<Rightarrow> d | Some s \<Rightarrow> if s = [] then d else s)"

definition orElseInt :: "int option \<Rightarrow> int \<Rightarrow> int" where
  "orElseInt v d = (case v of None \<Rightarrow> d | Some n \<Rightarrow> if n = 0 then d else n)"

subsection \<open>parseInt\<close>

text \<open>
  \<^verbatim>\<open>parseInt(s)\<close> without a radix: leading white space is skipped, a sign is read, a
  prefix \<^verbatim>\<open>0x\<close> selects radix 16, and the longest prefix of digits is the value; no
  digit gives \<open>NaN\<close>. The model reads ASCII strings and keeps the value exact.
\<close>

definition isWhiteSpace :: "char \<Rightarrow> bool" where
  "isWhiteSpace c = (of_char c \<in> {9, 10, 11, 12, 13, 32 :: nat})"

definition digitValue :: "char \<Rightarrow> nat" where
  "digitValue c =
     (let n = of_char c :: nat in
      if 48 \<le> n \<and> n \<le> 57 then n - 48
      else if 97 \<le> n \<and> n \<le> 122 then n - 87
      else if 65 \<le> n \<and> n \<le> 90 then n - 55
      else 36)"

definition parseInt :: "string \<Rightarrow> int option" where
  "parseInt s =
     (let s1 = dropWhile isWhiteSpace s;
          neg = (take 1 s1 = ''-'');
          s2 = (if take 1 s1 = ''-'' \<or> take 1 s1 = ''+'' then drop 1 s1 else s1);
          hex = (take 2 s2 = ''0x'' \<or> take 2 s2 = ''0X'');
          R = (if hex then 16 else 10);
          s3 = (if hex then drop 2 s2 else s2);
          ds = takeWhile (\<lambda>c. digitValue c < R) s3;
          n = foldl (\<lambda>a c. a * int R + int (digitValue c)) 0 ds
      in if ds = [] then None else Some (if neg then - n else n))"

text \<open>\<^verbatim>\<open>parseInt(x?.value)\<close>: an absent element gives \<open>undefined\<close>, which parses to \<open>NaN\<close>.\<close>

definition parseIntOpt :: "string option \<Rightarrow> int option" where
  "parseIntOpt v = (case v of None \<Rightarrow> None | Some s \<Rightarrow> parseInt s)"

subsection \<open>The page\<close>

text \<open>
  A form control carries what the script reads and writes of it: its \<^verbatim>\<open>value\<close>, the
  \<^verbatim>\<open>required\<close> attribute, whether \<^verbatim>\<open>offsetParent\<close> is \<open>null\<close> (the control is not
  rendered), the \<^verbatim>\<open>data-step\<close> of the form step that contains it, and whether its class
  list holds \<^verbatim>\<open>error\<close>. A radio button or check box is its value and its checked state;
  a list of them is in document order.
\<close>

record control =
  cvalue :: string
  required :: bool
  offsetParentNull :: bool
  stepOf :: "nat option"
  errorClass :: bool

type_synonym checkbox = "string \<times> bool"

text \<open>
  The text of a quote value is either \<^verbatim>\<open>formatCurrency(amount)\<close>, kept as the amount it
  presents, or a literal text.
\<close>

datatype textContent = Formatted rat | Literal string

record lineEl =
  display :: string
  quoteLabel :: string
  quoteValue :: textContent

record page =
  currentStep :: nat
  steps :: "(nat \<times> bool) list"
  progressSteps :: "(nat \<times> bool \<times> bool) list"
  serviceTypeSelect :: control
  regionSelect :: control
  locationTypeSelect :: control
  numDocumentsInput :: control
  sessionHoursSelect :: "control option"
  urgencyRadios :: "checkbox list"
  deliveryRadios :: "checkbox list"
  addonBoxes :: "checkbox list"
  remoteUrgencyBoxes :: "checkbox list"
  otherFields :: "control list"
  baseServiceLine :: lineEl
  documentsLine :: lineEl
  sessionOverageLine :: lineEl
  recordingLine :: lineEl
  complexityLine :: lineEl
  urgencyLine :: lineEl
  bookingUrgencyLine :: lineEl
  deliveryLine :: lineEl
  locationLine :: lineEl
  totalPriceEl :: textContent
  notifications :: "(string \<times> string) list"

text \<open>
  \<open>steps\<close> are the \<^verbatim>\<open>.form-step\<close> elements (their \<^verbatim>\<open>data-step\<close> and whether they are
  \<^verbatim>\<open>active\<close>), \<open>progressSteps\<close> the \<^verbatim>\<open>.progress-step\<close> elements (\<^verbatim>\<open>data-step\<close>,
  \<^verbatim>\<open>active\<close>, \<^verbatim>\<open>completed\<close>), \<open>otherFields\<close> the remaining controls of the form, and
  \<open>notifications\<close> the \<^verbatim>\<open>.notification\<close> elements of the body (message and type).
  The elements that the script fetches by a fixed id and uses unguarded are part of
  every page; those it guards (\<^verbatim>\<open>sessionHoursSelect\<close>, a checked radio, the check box
  of another add-on) may be absent.
\<close>

text \<open>
  \<^verbatim>\<open>document.querySelector('input[name=...]:checked')?.value\<close>: the value of the first
  checked element, \<open>undefined\<close> when none is checked.
\<close>

definition checkedValue :: "checkbox list \<Rightarrow> string option" where
  "checkedValue boxes = map_option fst (find snd boxes)"

text \<open>\<^verbatim>\<open>document.querySelectorAll('input[name=...]:checked')\<close>, in document order.\<close>

definition checkedBoxes :: "checkbox list \<Rightarrow> checkbox list" where
  "checkedBoxes boxes = filter snd boxes"

subsection \<open>The quote object\<close>

record quote =
  serviceName :: string
  basePrice :: rat
  numDocs :: int
  additionalDocsPrice :: rat
  sessionOveragePrice :: rat
  recordingPrice :: rat
  complexityPrice :: rat
  urgencyPrice :: rat
  bookingUrgencyPrice :: rat
  deliveryPrice :: rat
  locationPrice :: rat
  urgency :: string
  delivery :: string
  locationType :: string
  isRemoteService :: bool

subsection \<open>Add-on sums\<close>

text \<open>
  The amount that the body of the loop of \<^verbatim>\<open>calculateRecordingAddons\<close> adds to
  \<^verbatim>\<open>total\<close> for one checked add-on.
\<close>

definition recordingAddonAmount :: "bool \<Rightarrow> string \<Rightarrow> rat" where
  "recordingAddonAmount hasAudioVideo v =
     (if v = ''audio'' then PRICING_recording_audio
      else if v = ''audio_video'' then PRICING_recording_audio_video
      else if v = ''timestamp'' then
        (if \<not> hasAudioVideo then PRICING_recording_timestamp else 0)
      else if v = ''same_day_delivery'' then PRICING_recording_same_day_delivery
      else if v = ''24hr_delivery'' then PRICING_recording_24hr_delivery
      else if v = ''archive_monthly'' then PRICING_recording_archive_monthly
      else if v = ''archive_yearly'' then PRICING_recording_archive_yearly
      else 0)"

definition calculateRecordingAddons :: "page \<Rightarrow> rat" where
  "calculateRecordingAddons p =
     (let selectedAddons = checkedBoxes (addonBoxes p);
          hasAudioVideo = list_ex (\<lambda>cb. fst cb = ''audio_video'') selectedAddons
      in foldl (\<lambda>total addon. total + recordingAddonAmount hasAudioVideo (fst addon))
           0 selectedAddons)"

definition calculateComplexityAddons :: "page \<Rightarrow> rat" where
  "calculateComplexityAddons p =
     foldl (\<lambda>total addon.
             if truthy (map_of PRICING_complexity (fst addon))
             then total + orElse (map_of PRICING_complexity (fst addon)) 0
             else total)
       0 (checkedBoxes (addonBoxes p))"

definition calculateRemoteUrgency :: "page \<Rightarrow> rat" where
  "calculateRemoteUrgency p =
     foldl (\<lambda>total u.
             if truthy (map_of PRICING_remoteUrgency (fst u))
             then total + orElse (map_of PRICING_remoteUrgency (fst u)) 0
             else total)
       0 (checkedBoxes (remoteUrgencyBoxes p))"

subsection \<open>Building the quote\<close>

definition regionNames :: "(string \<times> string) list" where
  "regionNames =
     [(''nj'', ''New Jersey''), (''dmv'', ''DMV Area''), (''tn'', ''Tennessee''),
      (''swva'', ''Roanoke/SWVA''), (''federal'', ''Federal'')]"

definition getRegionName :: "string \<Rightarrow> string" where
  "getRegionName region = orElseStr (map_of regionNames region) region"

text \<open>The quote object with which \<^verbatim>\<open>calculateQuote\<close> starts.\<close>

definition initialQuote :: "page \<Rightarrow> quote" where
  "initialQuote p =
     \<lparr> serviceName = '''',
       basePrice = 0,
       numDocs = orElseInt (parseInt (cvalue (numDocumentsInput p))) 1,
       additionalDocsPrice = 0,
       sessionOveragePrice = 0,
       recordingPrice = 0,
       complexityPrice = 0,
       urgencyPrice = 0,
       bookingUrgencyPrice = 0,
       deliveryPrice = 0,
       locationPrice = 0,
       urgency = orElseStr (checkedValue (urgencyRadios p)) ''standard'',
       delivery = orElseStr (checkedValue (deliveryRadios p)) ''pickup'',
       locationType = cvalue (locationTypeSelect p),
       isRemoteService = False \<rparr>"

text \<open>
  The body of \<^verbatim>\<open>calculateQuote\<close> up to its call of \<^verbatim>\<open>updateQuoteDisplay\<close>: the
  \<^verbatim>\<open>switch\<close> on the service type fills the quote object.
\<close>

definition buildQuote :: "page \<Rightarrow> quote" where
  "buildQuote p =
     (let serviceType = cvalue (serviceTypeSelect p);
          region = cvalue (regionSelect p);
          q = initialQuote p;
          n = numDocs q;
          sessionHours = orElseInt (parseIntOpt (map_option cvalue (sessionHoursSelect p))) 4
      in
      if serviceType = ''apostille'' then
        (let q1 =
           (if region \<noteq> [] \<and> truthy (map_of PRICING_apostille region) then
              (let b = orElse (map_of PRICING_apostille region) 0 in
               q\<lparr> basePrice := b,
                  additionalDocsPrice :=
                    (if n > 1 then of_int (n - 1) * (b * (1 - PRICING_additionalDocDiscount))
                     else 0) \<rparr>)
            else q)
         in q1\<lparr> serviceName :=
                  (if region \<noteq> [] then getRegionName region @ '' Apostille''
                   else ''Apostille''),
                urgencyPrice := orElse (map_of PRICING_urgency (urgency q)) 0,
                deliveryPrice := orElse (map_of PRICING_delivery (delivery q)) 0 \<rparr>)
      else if serviceType = ''poa'' then
        q\<lparr> basePrice := PRICING_poa_base,
           additionalDocsPrice :=
             (if n > 1 then of_int (n - 1) * PRICING_poa_perDoc else 0),
           locationPrice := orElse (map_of PRICING_location (locationType q)) 0,
           serviceName := ''Power of Attorney'',
           urgencyPrice := orElse (map_of PRICING_urgency (urgency q)) 0,
           deliveryPrice := orElse (map_of PRICING_delivery (delivery q)) 0 \<rparr>
      else if serviceType = ''trust'' then
        q\<lparr> basePrice := PRICING_trust_base,
           additionalDocsPrice :=
             (if n > 1 then of_int (n - 1) * PRICING_trust_perDoc else 0),
           locationPrice := orElse (map_of PRICING_location (locationType q)) 0,
           serviceName := ''Trust Notarization'',
           urgencyPrice := orElse (map_of PRICING_urgency (urgency q)) 0,
           deliveryPrice := orElse (map_of PRICING_delivery (delivery q)) 0 \<rparr>
      else if serviceType = ''loan'' then
        q\<lparr> basePrice := PRICING_loan_base,
           additionalDocsPrice :=
             (if n > 1 then of_int (n - 1) * PRICING_loan_perDoc else 0),
           locationPrice := orElse (map_of PRICING_location (locationType q)) 0,
           serviceName := ''Loan Signing'',
           urgencyPrice := orElse (map_of PRICING_urgency (urgency q)) 0,
           deliveryPrice := orElse (map_of PRICING_delivery (delivery q)) 0 \<rparr>
      else if serviceType = ''hospital'' then
        q\<lparr> basePrice := PRICING_hospital_base,
           additionalDocsPrice :=
             (if n > 1 then of_int (n - 1) * PRICING_hospital_perDoc else 0),
           serviceName := ''Hospital/Nursing Home Notarization'',
           urgencyPrice := orElse (map_of PRICING_urgency (urgency q)) 0,
           deliveryPrice := orElse (map_of PRICING_delivery (delivery q)) 0 \<rparr>
      else if serviceType = ''remote'' then
        q\<lparr> basePrice := PRICING_remote_base,
           serviceName := ''Remote Deposition Support'',
           isRemoteService := True,
           sessionOveragePrice :=
             (if sessionHours > 4
              then of_int (sessionHours - 4) * PRICING_remote_overagePerHour else 0),
           recordingPrice := calculateRecordingAddons p,
           complexityPrice := calculateComplexityAddons p,
           bookingUrgencyPrice := calculateRemoteUrgency p \<rparr>
      else if serviceType = ''recording_only'' then
        q\<lparr> basePrice := 0,
           serviceName := ''Digital Recording (Add-on)'',
           isRemoteService := True,
           recordingPrice := calculateRecordingAddons p,
           bookingUrgencyPrice := calculateRemoteUrgency p \<rparr>
      else if serviceType = ''certified_reporter'' then
        q\<lparr> basePrice := PRICING_certified_reporter_coordination,
           serviceName := ''Certified Reporter Coordination'',
           isRemoteService := True,
           bookingUrgencyPrice := calculateRemoteUrgency p \<rparr>
      else q)"

subsection \<open>Rendering the quote\<close>

text \<open>The decimal text of an integer, as a template literal renders it.\<close>

function showNat :: "nat \<Rightarrow> string" where
  "showNat n =
     (if n < 10 then [''0123456789'' ! n]
      else showNat (n div 10) @ [''0123456789'' ! (n mod 10)])"
  by pat_completeness auto
termination
  by (relation "measure id") auto

declare showNat.simps [simp del]

definition showInt :: "int \<Rightarrow> string" where
  "showInt i = (if i < 0 then ''-'' @ showNat (nat (- i)) else showNat (nat i))"

definition deliveryNames :: "(string \<times> string) list" where
  "deliveryNames =
     [(''standard_mail'', ''Standard Mail''), (''express'', ''Express Shipping''),
      (''international'', ''International Shipping'')]"

definition locationNames :: "(string \<times> string) list" where
  "locationNames =
     [(''mobile'', ''Mobile Service Fee''), (''hospital'', ''Hospital/Facility Fee'')]"

text \<open>
  A line that is shown gets its label and its formatted amount; a line that is hidden
  keeps the texts it had.
\<close>

definition shown :: "string \<Rightarrow> rat \<Rightarrow> lineEl \<Rightarrow> lineEl" where
  "shown l a el = el\<lparr> display := ''flex'', quoteLabel := l, quoteValue := Formatted a \<rparr>"

definition hiddenLine :: "lineEl \<Rightarrow> lineEl" where
  "hiddenLine el = el\<lparr> display := ''none'' \<rparr>"

definition updateQuoteDisplay :: "quote \<Rightarrow> page \<Rightarrow> page" where
  "updateQuoteDisplay q p =
     p\<lparr> baseServiceLine :=
          (baseServiceLine p)\<lparr> quoteLabel := orElseStr (Some (serviceName q)) ''Base Service'',
                                quoteValue := Formatted (basePrice q) \<rparr>,
        documentsLine :=
          (if isRemoteService q then hiddenLine (documentsLine p)
           else if numDocs q > 1 then
             shown (''Additional Documents ('' @ showInt (numDocs q - 1) @ '')'')
               (additionalDocsPrice q) (documentsLine p)
           else (documentsLine p)\<lparr> display := ''flex'', quoteLabel := ''Documents (1)'',
                                    quoteValue := Literal ''Included'' \<rparr>),
        sessionOverageLine :=
          (if sessionOveragePrice q > 0
           then shown ''Session Overage'' (sessionOveragePrice q) (sessionOverageLine p)
           else hiddenLine (sessionOverageLine p)),
        recordingLine :=
          (if recordingPrice q > 0
           then shown ''Recording Add-ons'' (recordingPrice q) (recordingLine p)
           else hiddenLine (recordingLine p)),
        complexityLine :=
          (if complexityPrice q > 0
           then shown ''Complexity Add-ons'' (complexityPrice q) (complexityLine p)
           else hiddenLine (complexityLine p)),
        urgencyLine :=
          (if urgencyPrice q > 0
           then shown (if urgency q = ''expedited'' then ''Expedited Processing''
                       else ''Rush Processing'')
                  (urgencyPrice q) (urgencyLine p)
           else hiddenLine (urgencyLine p)),
        bookingUrgencyLine :=
          (if bookingUrgencyPrice q > 0
           then shown ''Booking/Timing Fees'' (bookingUrgencyPrice q) (bookingUrgencyLine p)
           else hiddenLine (bookingUrgencyLine p)),
        deliveryLine :=
          (if deliveryPrice q > 0
           then shown (orElseStr (map_of deliveryNames (delivery q)) ''Delivery'')
                  (deliveryPrice q) (deliveryLine p)
           else hiddenLine (deliveryLine p)),
        locationLine :=
          (if locationPrice q > 0
           then shown (orElseStr (map_of locationNames (locationType q)) ''Location Fee'')
                  (locationPrice q) (locationLine p)
           else hiddenLine (locationLine p)),
        totalPriceEl :=
          Formatted (basePrice q + additionalDocsPrice q + sessionOveragePrice q +
                     recordingPrice q + complexityPrice q + urgencyPrice q +
                     bookingUrgencyPrice q + deliveryPrice q + locationPrice q) \<rparr>"

definition calculateQuote :: "page \<Rightarrow> page" where
  "calculateQuote p = updateQuoteDisplay (buildQuote p) p"

text \<open>
  The quote that the page presents: the base service line, which the script never
  hides, then every line whose display is not \<^verbatim>\<open>none\<close>, each with its label and value
  text, and the total. The amount of a text is the amount it formats; the literal
  \<^verbatim>\<open>Included\<close> charges nothing.
\<close>

definition visibleLine :: "lineEl \<Rightarrow> (string \<times> textContent) list" where
  "visibleLine el = (if display el = ''none'' then [] else [(quoteLabel el, quoteValue el)])"

definition quoteLines :: "page \<Rightarrow> (string \<times> textContent) list" where
  "quoteLines p =
     [(quoteLabel (baseServiceLine p), quoteValue (baseServiceLine p))] @
     visibleLine (documentsLine p) @ visibleLine (sessionOverageLine p) @
     visibleLine (recordingLine p) @ visibleLine (complexityLine p) @
     visibleLine (urgencyLine p) @ visibleLine (bookingUrgencyLine p) @
     visibleLine (deliveryLine p) @ visibleLine (locationLine p)"

fun amount :: "textContent \<Rightarrow> rat" where
  "amount (Formatted a) = a"
| "amount (Literal s) = 0"

subsection \<open>The older calculator\<close>

text \<open>
  \<^verbatim>\<open>src/unnamed/part_001\<close> is the script before the remote services were added. Its
  quote object has ten properties, it prices urgency and delivery before the
  \<^verbatim>\<open>switch\<close>, and it never changes the display of the documents line.
\<close>

record legacyQuote =
  lServiceName :: string
  lBasePrice :: rat
  lNumDocs :: int
  lAdditionalDocsPrice :: rat
  lUrgency :: string
  lUrgencyPrice :: rat
  lDelivery :: string
  lDeliveryPrice :: rat
  lLocationType :: string
  lLocationPrice :: rat

definition legacyBuildQuote :: "page \<Rightarrow> legacyQuote" where
  "legacyBuildQuote p =
     (let serviceType = cvalue (serviceTypeSelect p);
          region = cvalue (regionSelect p);
          n = orElseInt (parseInt (cvalue (numDocumentsInput p))) 1;
          urg = orElseStr (checkedValue (urgencyRadios p)) ''standard'';
          del = orElseStr (checkedValue (deliveryRadios p)) ''pickup'';
          loc = cvalue (locationTypeSelect p);
          q = \<lparr> lServiceName = '''', lBasePrice = 0, lNumDocs = n,
                lAdditionalDocsPrice = 0, lUrgency = urg,
                lUrgencyPrice = orElse (map_of PRICING_urgency urg) 0,
                lDelivery = del,
                lDeliveryPrice = orElse (map_of PRICING_delivery del) 0,
                lLocationType = loc, lLocationPrice = 0 \<rparr>
      in
      if serviceType = ''apostille'' then
        (let q1 =
           (if region \<noteq> [] \<and> truthy (map_of PRICING_apostille region) then
              (let b = orElse (map_of PRICING_apostille region) 0 in
               q\<lparr> lBasePrice := b,
                  lAdditionalDocsPrice :=
                    (if n > 1 then of_int (n - 1) * (b * (1 - PRICING_additionalDocDiscount))
                     else 0) \<rparr>)
            else q)
         in q1\<lparr> lServiceName :=
                  (if region \<noteq> [] then getRegionName region @ '' Apostille''
                   else ''Apostille'') \<rparr>)
      else if serviceType = ''poa'' then
        q\<lparr> lBasePrice := PRICING_poa_base,
           lAdditionalDocsPrice :=
             (if n > 1 then of_int (n - 1) * PRICING_poa_perDoc else 0),
           lLocationPrice := orElse (map_of PRICING_location loc) 0,
           lServiceName := ''Power of Attorney'' \<rparr>
      else if serviceType = ''trust'' then
        q\<lparr> lBasePrice := PRICING_trust_base,
           lAdditionalDocsPrice :=
             (if n > 1 then of_int (n - 1) * PRICING_trust_perDoc else 0),
           lLocationPrice := orElse (map_of PRICING_location loc) 0,
           lServiceName := ''Trust Notarization'' \<rparr>
      else if serviceType = ''loan'' then
        q\<lparr> lBasePrice := PRICING_loan_base,
           lAdditionalDocsPrice :=
             (if n > 1 then of_int (n - 1) * PRICING_loan_perDoc else 0),
           lLocationPrice := orElse (map_of PRICING_location loc) 0,
           lServiceName := ''Loan Signing'' \<rparr>
      else if serviceType = ''hospital'' then
        q\<lparr> lBasePrice := PRICING_hospital_base,
           lAdditionalDocsPrice :=
             (if n > 1 then of_int (n - 1) * PRICING_hospital_perDoc else 0),
           lServiceName := ''Hospital/Nursing Home Notarization'' \<rparr>
      else q)"

definition legacyUpdateQuoteDisplay :: "legacyQuote \<Rightarrow> page \<Rightarrow> page" where
  "legacyUpdateQuoteDisplay q p =
     p\<lparr> baseServiceLine :=
          (baseServiceLine p)\<lparr> quoteLabel := orElseStr (Some (lServiceName q)) ''Base Service'',
                                quoteValue := Formatted (lBasePrice q) \<rparr>,
        documentsLine :=
          (if lNumDocs q > 1 then
             (documentsLine p)\<lparr>
                quoteLabel := ''Additional Documents ('' @ showInt (lNumDocs q - 1) @ '')'',
                quoteValue := Formatted (lAdditionalDocsPrice q) \<rparr>
           else (documentsLine p)\<lparr> quoteLabel := ''Documents (1)'',
                                    quoteValue := Literal ''Included'' \<rparr>),
        urgencyLine :=
          (if lUrgencyPrice q > 0
           then shown (if lUrgency q = ''expedited'' then ''Expedited Processing''
                       else ''Rush Processing'')
                  (lUrgencyPrice q) (urgencyLine p)
           else hiddenLine (urgencyLine p)),
        deliveryLine :=
          (if lDeliveryPrice q > 0
           then shown (orElseStr (map_of deliveryNames (lDelivery q)) ''Delivery'')
                  (lDeliveryPrice q) (deliveryLine p)
           else hiddenLine (deliveryLine p)),
        locationLine :=
          (if lLocationPrice q > 0
           then shown (orElseStr (map_of locationNames (lLocationType q)) ''Location Fee'')
                  (lLocationPrice q) (locationLine p)
           else hiddenLine (locationLine p)),
        totalPriceEl :=
          Formatted (lBasePrice q + lAdditionalDocsPrice q + lUrgencyPrice q +
                     lDeliveryPrice q + lLocationPrice q) \<rparr>"

definition legacyCalculateQuote :: "page \<Rightarrow> page" where
  "legacyCalculateQuote p = legacyUpdateQuoteDisplay (legacyBuildQuote p) p"

subsection \<open>Add-on check boxes\<close>

text \<open>
  \<^verbatim>\<open>document.querySelector('input[name="addons"][value=v]')\<close> is the first check box
  with that value; the handler unchecks it when there is one.
\<close>

fun uncheck :: "string \<Rightarrow> checkbox list \<Rightarrow> checkbox list" where
  "uncheck v [] = []"
| "uncheck v ((w, c) # boxes) =
     (if w = v then (w, False) # boxes else (w, c) # uncheck v boxes)"

text \<open>
  The handler of the \<^verbatim>\<open>change\<close> event of an add-on check box. It reads the value and
  the checked state of the event's target, which the browser has already toggled.
\<close>

definition handleAddonChange :: "checkbox \<Rightarrow> page \<Rightarrow> page" where
  "handleAddonChange target p =
     (let v = fst target;
          checked = snd target;
          p1 = (if v = ''audio'' \<and> checked
                then p\<lparr> addonBoxes := uncheck ''audio_video'' (addonBoxes p) \<rparr>
                else if v = ''audio_video'' \<and> checked
                then p\<lparr> addonBoxes := uncheck ''audio'' (addonBoxes p) \<rparr>
                else p);
          p2 = (if (v = ''same_day_delivery'' \<or> v = ''24hr_delivery'') \<and> checked
                then p1\<lparr> addonBoxes :=
                          uncheck (if v = ''same_day_delivery'' then ''24hr_delivery''
                                   else ''same_day_delivery'') (addonBoxes p1) \<rparr>
                else p1);
          p3 = (if (v = ''archive_monthly'' \<or> v = ''archive_yearly'') \<and> checked
                then p2\<lparr> addonBoxes :=
                          uncheck (if v = ''archive_monthly'' then ''archive_yearly''
                                   else ''archive_monthly'') (addonBoxes p2) \<rparr>
                else p2)
      in calculateQuote p3)"

text \<open>
  A click on the \<open>i\<close>-th add-on check box: the browser toggles the box, then the
  handler runs on it. A page has no box beyond its list, and no click there.
\<close>

definition toggleAddon :: "nat \<Rightarrow> page \<Rightarrow> page" where
  "toggleAddon i p =
     p\<lparr> addonBoxes :=
          (addonBoxes p)[i := (fst (addonBoxes p ! i), \<not> snd (addonBoxes p ! i))] \<rparr>"

definition clickAddon :: "nat \<Rightarrow> page \<Rightarrow> page" where
  "clickAddon i p =
     (if i < length (addonBoxes p)
      then handleAddonChange (addonBoxes (toggleAddon i p) ! i) (toggleAddon i p)
      else p)"

text \<open>The add-on identifiers that are selected on a page.\<close>

definition selectedAddons :: "page \<Rightarrow> string list" where
  "selectedAddons p = map fst (checkedBoxes (addonBoxes p))"


text \<open>The values that are checked in a list of check boxes.\<close>

definition checkedSet :: "checkbox list \<Rightarrow> string set" where
  "checkedSet boxes = {v. (v, True) \<in> set boxes}"

text \<open>The booking and timing identifiers that are selected on a page.\<close>

definition selectedRemoteUrgency :: "page \<Rightarrow> string list" where
  "selectedRemoteUrgency p = map fst (checkedBoxes (remoteUrgencyBoxes p))"

subsection \<open>Steps and validation\<close>

datatype error = TypeError

text \<open>
  \<^verbatim>\<open>showNotification\<close> removes the first notification of the page and appends the new
  one. Its timers, which remove the notification later, are not part of the model.
\<close>

definition showNotification :: "string \<Rightarrow> string \<Rightarrow> page \<Rightarrow> page" where
  "showNotification message type p =
     p\<lparr> notifications := drop 1 (notifications p) @ [(message, type)] \<rparr>"

text \<open>
  \<^verbatim>\<open>goToStep\<close> recomputes the quote before step 3, marks the active form step and the
  active and completed progress steps, and stores the step. Scrolling to the form
  leaves the page state as it is.
\<close>

definition goToStep :: "nat \<Rightarrow> page \<Rightarrow> page" where
  "goToStep stepNumber p =
     (let p1 = (if stepNumber = 3 then calculateQuote p else p)
      in p1\<lparr> steps := map (\<lambda>(s, a). (s, s = stepNumber)) (steps p1),
             progressSteps :=
               map (\<lambda>(s, a, c). (s, s = stepNumber, s \<noteq> stepNumber \<and> s < stepNumber))
                 (progressSteps p1),
             currentStep := stepNumber \<rparr>)"

text \<open>
  The controls of the form. The required fields of a step are those among them that
  lie in the step and carry the \<^verbatim>\<open>required\<close> attribute; the loop of
  \<^verbatim>\<open>validateCurrentStep\<close> treats each field on its own, so the order in which they are
  listed does not matter.
\<close>

definition allControls :: "page \<Rightarrow> control list" where
  "allControls p =
     [serviceTypeSelect p, regionSelect p, locationTypeSelect p, numDocumentsInput p] @
     (case sessionHoursSelect p of None \<Rightarrow> [] | Some c \<Rightarrow> [c]) @ otherFields p"

text \<open>
  A control fails the loop of \<^verbatim>\<open>validateCurrentStep\<close> when it is a required field of
  the current step, is rendered, and has an empty value; the loop marks it.
\<close>

definition fieldFails :: "nat \<Rightarrow> control \<Rightarrow> bool" where
  "fieldFails s c =
     (stepOf c = Some s \<and> required c \<and> \<not> offsetParentNull c \<and> cvalue c = [])"

definition markField :: "nat \<Rightarrow> control \<Rightarrow> control" where
  "markField s c = (if fieldFails s c then c\<lparr> errorClass := True \<rparr> else c)"

text \<open>
  \<^verbatim>\<open>validateCurrentStep\<close> throws a \<open>TypeError\<close> when the page has no form step for
  \<^verbatim>\<open>currentStep\<close> (\<^verbatim>\<open>currentStepEl\<close> is \<open>null\<close>). Otherwise it returns \<^verbatim>\<open>isValid\<close> and
  the page with the failing fields marked and, when invalid, the notification. The
  listener that it adds to a marked field removes the mark at the next input; it acts
  in a later event and is not part of this step.
\<close>

definition validateCurrentStep :: "page \<Rightarrow> error + (bool \<times> page)" where
  "validateCurrentStep p =
     (if \<not> list_ex (\<lambda>st. fst st = currentStep p) (steps p) then Inl TypeError
      else
        (let s = currentStep p;
             isValid1 = \<not> list_ex (fieldFails s) (allControls p);
             p1 = p\<lparr> serviceTypeSelect := markField s (serviceTypeSelect p),
                     regionSelect := markField s (regionSelect p),
                     locationTypeSelect := markField s (locationTypeSelect p),
                     numDocumentsInput := markField s (numDocumentsInput p),
                     sessionHoursSelect := map_option (markField s) (sessionHoursSelect p),
                     otherFields := map (markField s) (otherFields p) \<rparr>;
             special = (s = 1 \<and> cvalue (serviceTypeSelect p1) = ''apostille''
                        \<and> cvalue (regionSelect p1) = []);
             isValid = (isValid1 \<and> \<not> special);
             p2 = (if special
                   then p1\<lparr> regionSelect := (regionSelect p1)\<lparr> errorClass := True \<rparr> \<rparr>
                   else p1);
             p3 = (if \<not> isValid
                   then showNotification ''Please fill in all required fields'' ''error'' p2
                   else p2)
         in Inr (isValid, p3)))"

text \<open>The click handlers of a \<^verbatim>\<open>.btn-next\<close> and a \<^verbatim>\<open>.btn-prev\<close> button.\<close>

definition btnNextClick :: "nat \<Rightarrow> page \<Rightarrow> error + page" where
  "btnNextClick nextStep p =
     (case validateCurrentStep p of
        Inl e \<Rightarrow> Inl e
      | Inr (isValid, p1) \<Rightarrow> if isValid then Inr (goToStep nextStep p1) else Inr p1)"

definition btnPrevClick :: "nat \<Rightarrow> page \<Rightarrow> page" where
  "btnPrevClick prevStep p = goToStep prevStep p"

subsection \<open>User input and notions of the properties\<close>

text \<open>The user picks a region: the value of the region select changes.\<close>

definition setRegion :: "string \<Rightarrow> page \<Rightarrow> page" where
  "setRegion r p = p\<lparr> regionSelect := (regionSelect p)\<lparr> cvalue := r \<rparr> \<rparr>"

text \<open>The page that a rejected validation of step 1 leaves.\<close>

definition rejectedPage :: "page \<Rightarrow> page" where
  "rejectedPage p =
     showNotification ''Please fill in all required fields'' ''error''
       (p\<lparr> serviceTypeSelect := markField 1 (serviceTypeSelect p),
           regionSelect := (markField 1 (regionSelect p))\<lparr> errorClass := True \<rparr>,
           locationTypeSelect := markField 1 (locationTypeSelect p),
           numDocumentsInput := markField 1 (numDocumentsInput p),
           sessionHoursSelect := map_option (markField 1) (sessionHoursSelect p),
           otherFields := map (markField 1) (otherFields p) \<rparr>)"


subsection \<open>A sample page\<close>

text \<open>
  A page as the form shows it at first, on which the scenarios are run: three steps,
  no service chosen, one document, four session hours, standard urgency, pickup, and
  no add-on checked.
\<close>

definition plainControl :: "string \<Rightarrow> control" where
  "plainControl v =
     \<lparr> cvalue = v, required = False, offsetParentNull = False, stepOf = Some 1,
       errorClass = False \<rparr>"

definition blankLine :: lineEl where
  "blankLine = \<lparr> display = ''none'', quoteLabel = '''', quoteValue = Literal '''' \<rparr>"

definition blankPage :: page where
  "blankPage =
     \<lparr> currentStep = 1,
       steps = [(1, True), (2, False), (3, False)],
       progressSteps = [(1, True, False), (2, False, False), (3, False, False)],
       serviceTypeSelect = (plainControl '''')\<lparr> required := True \<rparr>,
       regionSelect = plainControl '''',
       locationTypeSelect = plainControl ''office'',
       numDocumentsInput = (plainControl ''1'')\<lparr> required := True \<rparr>,
       sessionHoursSelect = Some (plainControl ''4''),
       urgencyRadios = [(''standard'', True), (''expedited'', False), (''rush'', False)],
       deliveryRadios =
         [(''pickup'', True), (''standard_mail'', False), (''express'', False),
          (''international'', False)],
       addonBoxes =
         [(''audio'', False), (''audio_video'', False), (''timestamp'', False),
          (''same_day_delivery'', False), (''24hr_delivery'', False),
          (''archive_monthly'', False), (''archive_yearly'', False),
          (''heavy_exhibits'', False), (''multi_party'', False), (''interpreter'', False),
          (''second_tech'', False)],
       remoteUrgencyBoxes =
         [(''rush_booking'', False), (''same_day_booking'', False), (''after_hours'', False),
          (''weekend_holiday'', False)],
       otherFields = [],
       baseServiceLine = blankLine,
       documentsLine = blankLine,
       sessionOverageLine = blankLine,
       recordingLine = blankLine,
       complexityLine = blankLine,
       urgencyLine = blankLine,
       bookingUrgencyLine = blankLine,
       deliveryLine = blankLine,
       locationLine = blankLine,
       totalPriceEl = Literal '''',
       notifications = [] \<rparr>"

section \<open>The machine arithmetic of the script\<close>

text \<open>
  A JavaScript number is an IEEE 754 double: a finite value, an infinity or \<open>NaN\<close>.
  The definitions above compute the amounts of the scenarios in exact arithmetic. This
  section embeds the same code with the arithmetic of the script: every literal,
  every parsed count and every sum, difference and product is rounded to the nearest
  double, ties to even. A finite double is kept as the rational it denotes; the two
  zeros are one value, and no amount of the script is a negative zero.
\<close>

subsection \<open>Doubles\<close>






subsection \<open>Operators on numbers\<close>












subsection \<open>The quote in machine arithmetic\<close>








subsection \<open>Rendering in machine arithmetic\<close>














subsection \<open>Notions of the properties of machine arithmetic\<close>




section \<open>Properties\<close>

subsection \<open>Auxiliary facts\<close>

lemmas PRICING_consts =
  PRICING_poa_base_def PRICING_poa_perDoc_def PRICING_trust_base_def
  PRICING_trust_perDoc_def PRICING_loan_base_def PRICING_loan_perDoc_def
  PRICING_hospital_base_def PRICING_hospital_perDoc_def PRICING_remote_base_def
  PRICING_remote_overagePerHour_def PRICING_recording_audio_def
  PRICING_recording_audio_video_def PRICING_recording_timestamp_def
  PRICING_recording_same_day_delivery_def PRICING_recording_24hr_delivery_def
  PRICING_recording_archive_monthly_def PRICING_recording_archive_yearly_def
  PRICING_certified_reporter_coordination_def PRICING_additionalDocDiscount_def

lemmas PRICING_tables =
  PRICING_apostille_def PRICING_complexity_def PRICING_remoteUrgency_def
  PRICING_urgency_def PRICING_delivery_def PRICING_location_def

lemmas js_ops = truthy_def orElse_def orElseStr_def orElseInt_def

lemmas sample_defs = blankPage_def blankLine_def plainControl_def


lemma parseInt_3: "parseInt ''3'' = Some 3"
  by (simp add: parseInt_def isWhiteSpace_def digitValue_def)

lemma parseInt_6: "parseInt ''6'' = Some 6"
  by (simp add: parseInt_def isWhiteSpace_def digitValue_def)

lemma showNat_2: "showNat 2 = ''2''"
  by (simp add: showNat.simps)

lemma foldl_add_sum_list:
  "foldl (\<lambda>t x. t + f x) a xs = a + sum_list (map f xs)" for a :: rat
  by (induction xs arbitrary: a) (simp_all add: add.assoc)

lemma foldl_cond_add_sum_list:
  "foldl (\<lambda>t x. if c x then t + g x else t) a xs
     = a + sum_list (map (\<lambda>x. if c x then g x else 0) xs)" for a :: rat
  by (induction xs arbitrary: a) (simp_all add: add.assoc)

lemma calculateRecordingAddons_sum:
  "calculateRecordingAddons p =
     sum_list (map (recordingAddonAmount (''audio_video'' \<in> set (selectedAddons p)))
       (selectedAddons p))"
proof -
  have ex: "list_ex (\<lambda>cb. fst cb = ''audio_video'') (checkedBoxes (addonBoxes p))
      = (''audio_video'' \<in> set (selectedAddons p))"
    by (force simp: selectedAddons_def list_ex_iff)
  show ?thesis
    unfolding calculateRecordingAddons_def Let_def ex
    by (simp add: foldl_add_sum_list selectedAddons_def comp_def)
qed

lemma calculateComplexityAddons_sum:
  "calculateComplexityAddons p =
     sum_list (map (\<lambda>v. if truthy (map_of PRICING_complexity v)
                         then orElse (map_of PRICING_complexity v) 0 else 0)
       (selectedAddons p))"
  by (simp add: calculateComplexityAddons_def foldl_cond_add_sum_list selectedAddons_def
      comp_def)

lemma calculateRemoteUrgency_sum:
  "calculateRemoteUrgency p =
     sum_list (map (\<lambda>v. if truthy (map_of PRICING_remoteUrgency v)
                         then orElse (map_of PRICING_remoteUrgency v) 0 else 0)
       (selectedRemoteUrgency p))"
  by (simp add: calculateRemoteUrgency_def foldl_cond_add_sum_list
      selectedRemoteUrgency_def comp_def)


lemma set_selectedAddons: "set (selectedAddons p) = checkedSet (addonBoxes p)"
  by (force simp: selectedAddons_def checkedBoxes_def checkedSet_def)



lemma addonBoxes_calculateQuote: "addonBoxes (calculateQuote p) = addonBoxes p"
  by (simp add: calculateQuote_def updateQuoteDisplay_def)

lemma checkedSet_uncheck:
  "distinct (map fst boxes) \<Longrightarrow> checkedSet (uncheck v boxes) = checkedSet boxes - {v}"
proof (induction boxes)
  case Nil
  then show ?case by (simp add: checkedSet_def)
next
  case (Cons b boxes)
  obtain w c where b: "b = (w, c)" by (cases b)
  show ?case
  proof (cases "w = v")
    case True
    with Cons.prems b have "v \<notin> fst ` set boxes" by simp
    then have "(v, True) \<notin> set boxes" by force
    with True b show ?thesis by (auto simp: checkedSet_def)
  next
    case False
    with Cons b show ?thesis by (auto simp: checkedSet_def)
  qed
qed

lemma map_fst_uncheck: "map fst (uncheck v boxes) = map fst boxes"
  by (induction boxes) auto

lemma checkedSet_toggle_on:
  assumes "i < length boxes" and "boxes ! i = (a, False)"
  shows "checkedSet (boxes[i := (a, True)]) = insert a (checkedSet boxes)"
  using assms
proof (induction boxes arbitrary: i)
  case Nil
  then show ?case by simp
next
  case (Cons b boxes)
  then show ?case
    by (cases i) (auto simp: checkedSet_def)
qed

lemma map_fst_toggle:
  "i < length boxes \<Longrightarrow> map fst (boxes[i := (fst (boxes ! i), c)]) = map fst boxes"
  by (simp add: list_eq_iff_nth_eq nth_list_update)

lemma cvalue_markField: "cvalue (markField s c) = cvalue c"
  by (simp add: markField_def)

lemma fieldFails_markField: "fieldFails s (markField s' c) = fieldFails s c"
  by (simp add: markField_def fieldFails_def)

lemma fieldFails_errorClass: "fieldFails s (c\<lparr> errorClass := e \<rparr>) = fieldFails s c"
  by (simp add: fieldFails_def)

lemma markField_selectors:
  "stepOf (markField s c) = stepOf c" "required (markField s c) = required c"
  "offsetParentNull (markField s c) = offsetParentNull c"
  by (simp_all add: markField_def)

lemma currentStep_goToStep: "currentStep (goToStep n p) = n"
  by (simp add: goToStep_def Let_def)

lemma btnNextClick_valid:
  assumes "list_ex (\<lambda>st. fst st = currentStep p) (steps p)"
    and "\<not> list_ex (fieldFails (currentStep p)) (allControls p)"
    and "\<not> (currentStep p = 1 \<and> cvalue (serviceTypeSelect p) = ''apostille''
          \<and> cvalue (regionSelect p) = [])"
  shows "\<exists>p'. btnNextClick n p = Inr p' \<and> currentStep p' = n"
  using assms
  by (auto simp: btnNextClick_def validateCurrentStep_def Let_def cvalue_markField
      currentStep_goToStep)

lemma btnNextClick_rejected:
  assumes "currentStep p = 1"
    and "list_ex (\<lambda>st. fst st = 1) (steps p)"
    and "cvalue (serviceTypeSelect p) = ''apostille''"
    and "cvalue (regionSelect p) = []"
  shows "btnNextClick n p = Inr (rejectedPage p)"
  using assms
  by (simp add: btnNextClick_def validateCurrentStep_def Let_def cvalue_markField
      rejectedPage_def showNotification_def)

lemma allControls_rejected_fails:
  "list_ex (fieldFails s) (allControls (setRegion r (rejectedPage p)))
     = list_ex (fieldFails s) (allControls (setRegion r p))"
  by (cases "sessionHoursSelect p")
    (simp_all add: allControls_def setRegion_def rejectedPage_def showNotification_def
      list_ex_iff fieldFails_def markField_selectors cvalue_markField)

subsection \<open>Auxiliary facts of machine arithmetic\<close>



















































subsection \<open>The total is the sum of the lines\<close>




subsection \<open>Scenario 1: three apostilles for New Jersey\<close>

text \<open>
  Claim C4. With service type \<^verbatim>\<open>apostille\<close>, region \<^verbatim>\<open>nj\<close>, three documents, standard
  urgency and pickup, the additional documents cost \<open>2 * 447 * 0.85 = 759.90\<close> and
  the total is \<open>1206.90\<close>, in exact arithmetic. The quote shows the base line and the
  line of the two additional documents.
\<close>

theorem scenario1_apostille_nj:
  assumes "cvalue (serviceTypeSelect p) = ''apostille''"
    and "cvalue (regionSelect p) = ''nj''"
    and "parseInt (cvalue (numDocumentsInput p)) = Some 3"
    and "checkedValue (urgencyRadios p) = Some ''standard''"
    and "checkedValue (deliveryRadios p) = Some ''pickup''"
  shows "additionalDocsPrice (buildQuote p) = 2 * 447 * 0.85
    \<and> additionalDocsPrice (buildQuote p) = 759.90
    \<and> quoteLines (calculateQuote p) =
        [(''New Jersey Apostille'', Formatted 447),
         (''Additional Documents (2)'', Formatted 759.90)]
    \<and> totalPriceEl (calculateQuote p) = Formatted 1206.90"
  using assms
  by (simp add: buildQuote_def initialQuote_def calculateQuote_def updateQuoteDisplay_def
      quoteLines_def visibleLine_def shown_def hiddenLine_def js_ops PRICING_consts
      PRICING_tables getRegionName_def regionNames_def showInt_def showNat_2 Let_def)

theorem scenario1_apostille_nj_witness:
  "additionalDocsPrice
     (buildQuote (blankPage\<lparr> serviceTypeSelect := plainControl ''apostille'',
                             regionSelect := plainControl ''nj'',
                             numDocumentsInput := plainControl ''3'' \<rparr>)) = 759.90
   \<and> totalPriceEl
     (calculateQuote (blankPage\<lparr> serviceTypeSelect := plainControl ''apostille'',
                                 regionSelect := plainControl ''nj'',
                                 numDocumentsInput := plainControl ''3'' \<rparr>))
       = Formatted 1206.90"
  using scenario1_apostille_nj
    [of "blankPage\<lparr> serviceTypeSelect := plainControl ''apostille'',
                    regionSelect := plainControl ''nj'',
                    numDocumentsInput := plainControl ''3'' \<rparr>"]
  by (simp add: sample_defs checkedValue_def parseInt_3)

subsection \<open>An unknown service type gives the zero quote\<close>

text \<open>
  Claim C7. For every service type that is none of the eight values of the \<^verbatim>\<open>switch\<close>
  (the empty initial value among them), the quote object is the initial one: the
  service name is empty and every price is 0. The page then shows the placeholder
  label \<^verbatim>\<open>Base Service\<close>, lines whose amounts are 0, and the total 0.
  \<^verbatim>\<open>calculateQuote\<close> has no failing branch: it returns a page for every page. The
  values of the \<^verbatim>\<open>switch\<close> are the script's names of the service types (\<^verbatim>\<open>poa\<close>,
  \<^verbatim>\<open>loan\<close> and \<^verbatim>\<open>remote\<close> for power of attorney, loan signing and remote deposition).
\<close>

theorem unknown_service_type_zero_quote:
  assumes "cvalue (serviceTypeSelect p) \<notin>
    set [''apostille'', ''poa'', ''trust'', ''loan'', ''hospital'', ''remote'',
         ''recording_only'', ''certified_reporter'']"
  shows "buildQuote p = initialQuote p
    \<and> serviceName (buildQuote p) = ''''
    \<and> basePrice (buildQuote p) = 0 \<and> additionalDocsPrice (buildQuote p) = 0
    \<and> sessionOveragePrice (buildQuote p) = 0 \<and> recordingPrice (buildQuote p) = 0
    \<and> complexityPrice (buildQuote p) = 0 \<and> urgencyPrice (buildQuote p) = 0
    \<and> bookingUrgencyPrice (buildQuote p) = 0 \<and> deliveryPrice (buildQuote p) = 0
    \<and> locationPrice (buildQuote p) = 0
    \<and> quoteLabel (baseServiceLine (calculateQuote p)) = ''Base Service''
    \<and> map (amount \<circ> snd) (quoteLines (calculateQuote p)) = [0, 0]
    \<and> totalPriceEl (calculateQuote p) = Formatted 0"
proof -
  from assms have q: "buildQuote p = initialQuote p"
    by (simp add: buildQuote_def Let_def)
  show ?thesis
    unfolding calculateQuote_def q
    by (simp add: initialQuote_def updateQuoteDisplay_def quoteLines_def visibleLine_def
        shown_def hiddenLine_def js_ops)
qed

theorem unknown_service_type_zero_quote_witness:
  "buildQuote blankPage = initialQuote blankPage
   \<and> quoteLabel (baseServiceLine (calculateQuote blankPage)) = ''Base Service''
   \<and> map (amount \<circ> snd) (quoteLines (calculateQuote blankPage)) = [0, 0]
   \<and> totalPriceEl (calculateQuote blankPage) = Formatted 0"
  using unknown_service_type_zero_quote [of blankPage]
  by (simp add: sample_defs)

subsection \<open>The older calculator agrees on the notary services\<close>

text \<open>
  Claim C10. For the service types \<^verbatim>\<open>apostille\<close>, \<^verbatim>\<open>poa\<close>, \<^verbatim>\<open>trust\<close>, \<^verbatim>\<open>loan\<close> and
  \<^verbatim>\<open>hospital\<close>, and every region, number of documents, location type, urgency and
  delivery, the total of the older calculator equals the total of the current one.
\<close>

theorem legacy_total_agrees:
  assumes "cvalue (serviceTypeSelect p) \<in>
    set [''apostille'', ''poa'', ''trust'', ''loan'', ''hospital'']"
  shows "totalPriceEl (legacyCalculateQuote p) = totalPriceEl (calculateQuote p)"
proof -
  from assms consider "cvalue (serviceTypeSelect p) = ''apostille''"
    | "cvalue (serviceTypeSelect p) = ''poa''" | "cvalue (serviceTypeSelect p) = ''trust''"
    | "cvalue (serviceTypeSelect p) = ''loan''" | "cvalue (serviceTypeSelect p) = ''hospital''"
    by auto
  then show ?thesis
    by cases
      (simp_all add: legacyCalculateQuote_def legacyUpdateQuoteDisplay_def
        legacyBuildQuote_def calculateQuote_def updateQuoteDisplay_def buildQuote_def
        initialQuote_def Let_def)
qed

theorem legacy_total_agrees_witness:
  "totalPriceEl
     (legacyCalculateQuote (blankPage\<lparr> serviceTypeSelect := plainControl ''apostille'',
                                       regionSelect := plainControl ''nj'',
                                       numDocumentsInput := plainControl ''3'' \<rparr>))
   = totalPriceEl
     (calculateQuote (blankPage\<lparr> serviceTypeSelect := plainControl ''apostille'',
                                 regionSelect := plainControl ''nj'',
                                 numDocumentsInput := plainControl ''3'' \<rparr>))"
  using legacy_total_agrees
    [of "blankPage\<lparr> serviceTypeSelect := plainControl ''apostille'',
                    regionSelect := plainControl ''nj'',
                    numDocumentsInput := plainControl ''3'' \<rparr>"]
  by (simp add: sample_defs)

subsection \<open>A remote deposition ignores documents, urgency and delivery\<close>

text \<open>
  Claim C9. For the service type \<^verbatim>\<open>remote\<close>, replacing the number of documents, the
  urgency radios and the delivery radios by any others changes nothing of what
  \<^verbatim>\<open>calculateQuote\<close> writes: the resulting pages differ in these three inputs only.
  The three fields contribute no line: their prices are 0 and their lines are hidden.
\<close>

theorem remote_ignores_documents_urgency_delivery:
  assumes "cvalue (serviceTypeSelect p) = ''remote''"
  shows "calculateQuote (p\<lparr> numDocumentsInput := nd, urgencyRadios := ur,
                            deliveryRadios := dr \<rparr>)
      = (calculateQuote p)\<lparr> numDocumentsInput := nd, urgencyRadios := ur,
                             deliveryRadios := dr \<rparr>
    \<and> quoteLines (calculateQuote (p\<lparr> numDocumentsInput := nd, urgencyRadios := ur,
                                        deliveryRadios := dr \<rparr>))
      = quoteLines (calculateQuote p)
    \<and> totalPriceEl (calculateQuote (p\<lparr> numDocumentsInput := nd, urgencyRadios := ur,
                                          deliveryRadios := dr \<rparr>))
      = totalPriceEl (calculateQuote p)
    \<and> additionalDocsPrice (buildQuote p) = 0 \<and> urgencyPrice (buildQuote p) = 0
    \<and> deliveryPrice (buildQuote p) = 0
    \<and> display (documentsLine (calculateQuote p)) = ''none''
    \<and> display (urgencyLine (calculateQuote p)) = ''none''
    \<and> display (deliveryLine (calculateQuote p)) = ''none''"
  using assms
  by (simp add: calculateQuote_def updateQuoteDisplay_def buildQuote_def initialQuote_def
      Let_def hiddenLine_def calculateRecordingAddons_def calculateComplexityAddons_def
      calculateRemoteUrgency_def quoteLines_def)

theorem remote_ignores_documents_urgency_delivery_witness:
  "calculateQuote
     (blankPage\<lparr> serviceTypeSelect := plainControl ''remote'',
                 numDocumentsInput := plainControl ''7'',
                 urgencyRadios := [(''rush'', True)],
                 deliveryRadios := [(''express'', True)] \<rparr>)
   = (calculateQuote (blankPage\<lparr> serviceTypeSelect := plainControl ''remote'' \<rparr>))
       \<lparr> numDocumentsInput := plainControl ''7'',
         urgencyRadios := [(''rush'', True)],
         deliveryRadios := [(''express'', True)] \<rparr>"
  using remote_ignores_documents_urgency_delivery
    [where p = "blankPage\<lparr> serviceTypeSelect := plainControl ''remote'' \<rparr>"
      and nd = "plainControl ''7''" and ur = "[(''rush'', True)]"
      and dr = "[(''express'', True)]"]
  by (simp add: sample_defs)

subsection \<open>A number of documents that is not positive counts as one\<close>




subsection \<open>Scenario 3: a remote deposition of six hours\<close>

text \<open>
  Claim C5. With service type \<^verbatim>\<open>remote\<close>, six session hours, the add-on
  \<^verbatim>\<open>audio_video\<close> alone and the booking option \<^verbatim>\<open>rush_booking\<close> alone, the session
  overage is \<open>(6 - 4) * 150 = 300\<close>, the recording line is 199, the booking and
  timing line is 125, and the total is \<open>649 + 300 + 199 + 125 = 1273.00\<close>.
\<close>

theorem scenario3_remote_deposition:
  assumes "cvalue (serviceTypeSelect p) = ''remote''"
    and "parseIntOpt (map_option cvalue (sessionHoursSelect p)) = Some 6"
    and "selectedAddons p = [''audio_video'']"
    and "selectedRemoteUrgency p = [''rush_booking'']"
  shows "sessionOveragePrice (buildQuote p) = (6 - 4) * 150
    \<and> sessionOveragePrice (buildQuote p) = 300
    \<and> recordingPrice (buildQuote p) = 199
    \<and> bookingUrgencyPrice (buildQuote p) = 125
    \<and> quoteLines (calculateQuote p) =
        [(''Remote Deposition Support'', Formatted 649),
         (''Session Overage'', Formatted 300),
         (''Recording Add-ons'', Formatted 199),
         (''Booking/Timing Fees'', Formatted 125)]
    \<and> totalPriceEl (calculateQuote p) = Formatted (649 + 300 + 199 + 125)
    \<and> totalPriceEl (calculateQuote p) = Formatted 1273.00"
proof -
  have r: "calculateRecordingAddons p = 199"
    using assms(3)
    by (simp add: calculateRecordingAddons_sum recordingAddonAmount_def PRICING_consts)
  have c: "calculateComplexityAddons p = 0"
    using assms(3) by (simp add: calculateComplexityAddons_sum js_ops PRICING_tables)
  have u: "calculateRemoteUrgency p = 125"
    using assms(4) by (simp add: calculateRemoteUrgency_sum js_ops PRICING_tables)
  have q: "buildQuote p =
      (initialQuote p)\<lparr> basePrice := 649, serviceName := ''Remote Deposition Support'',
        isRemoteService := True, sessionOveragePrice := 300, recordingPrice := 199,
        complexityPrice := 0, bookingUrgencyPrice := 125 \<rparr>"
    using assms(1,2) by (simp add: buildQuote_def Let_def r c u orElseInt_def PRICING_consts)
  show ?thesis
    unfolding calculateQuote_def q
    by (simp add: initialQuote_def updateQuoteDisplay_def quoteLines_def visibleLine_def
        shown_def hiddenLine_def js_ops)
qed

theorem scenario3_remote_deposition_witness:
  "quoteLines
     (calculateQuote
        (blankPage\<lparr> serviceTypeSelect := plainControl ''remote'',
                    sessionHoursSelect := Some (plainControl ''6''),
                    addonBoxes := [(''audio'', False), (''audio_video'', True),
                                   (''timestamp'', False), (''heavy_exhibits'', False)],
                    remoteUrgencyBoxes := [(''rush_booking'', True),
                                           (''after_hours'', False)] \<rparr>))
     = [(''Remote Deposition Support'', Formatted 649),
        (''Session Overage'', Formatted 300),
        (''Recording Add-ons'', Formatted 199),
        (''Booking/Timing Fees'', Formatted 125)]
   \<and> totalPriceEl
     (calculateQuote
        (blankPage\<lparr> serviceTypeSelect := plainControl ''remote'',
                    sessionHoursSelect := Some (plainControl ''6''),
                    addonBoxes := [(''audio'', False), (''audio_video'', True),
                                   (''timestamp'', False), (''heavy_exhibits'', False)],
                    remoteUrgencyBoxes := [(''rush_booking'', True),
                                           (''after_hours'', False)] \<rparr>))
     = Formatted 1273.00"
  using scenario3_remote_deposition
    [of "blankPage\<lparr> serviceTypeSelect := plainControl ''remote'',
                    sessionHoursSelect := Some (plainControl ''6''),
                    addonBoxes := [(''audio'', False), (''audio_video'', True),
                                   (''timestamp'', False), (''heavy_exhibits'', False)],
                    remoteUrgencyBoxes := [(''rush_booking'', True),
                                           (''after_hours'', False)] \<rparr>"]
  by (simp add: sample_defs parseIntOpt_def parseInt_6 selectedAddons_def
      selectedRemoteUrgency_def checkedBoxes_def)

subsection \<open>The time stamp is free with audio and video\<close>



subsection \<open>Exclusive add-ons\<close>

text \<open>
  Claim C2. For each of the groups \<^verbatim>\<open>{audio, audio_video}\<close>,
  \<^verbatim>\<open>{same_day_delivery, 24hr_delivery}\<close> and \<^verbatim>\<open>{archive_monthly, archive_yearly}\<close>, on
  every page that has one check box for each add-on and where the member \<open>b\<close> is
  selected, a click that selects the other member \<open>a\<close> gives a page where \<open>a\<close> is
  selected and \<open>b\<close> is not. No other add-on changes: the selected set becomes the
  old one without \<open>b\<close> and with \<open>a\<close>.
\<close>

theorem exclusive_addon_groups:
  assumes "(a, b) \<in> set [(''audio'', ''audio_video''), (''audio_video'', ''audio''),
      (''same_day_delivery'', ''24hr_delivery''), (''24hr_delivery'', ''same_day_delivery''),
      (''archive_monthly'', ''archive_yearly''), (''archive_yearly'', ''archive_monthly'')]"
    and "distinct (map fst (addonBoxes p))"
    and "i < length (addonBoxes p)"
    and "addonBoxes p ! i = (a, False)"
    and "b \<in> set (selectedAddons p)"
  shows "a \<in> set (selectedAddons (clickAddon i p))
    \<and> b \<notin> set (selectedAddons (clickAddon i p))
    \<and> set (selectedAddons (clickAddon i p)) = insert a (set (selectedAddons p) - {b})"
proof -
  let ?bs = "(addonBoxes p)[i := (a, True)]"
  have t: "toggleAddon i p = p\<lparr> addonBoxes := ?bs \<rparr>"
    using assms(4) by (simp add: toggleAddon_def)
  have d: "distinct (map fst ?bs)"
    using assms(2,3,4) map_fst_toggle [of i "addonBoxes p" True] by simp
  have on: "checkedSet ?bs = insert a (checkedSet (addonBoxes p))"
    using assms(3,4) by (rule checkedSet_toggle_on)
  have click: "clickAddon i p = handleAddonChange (a, True) (p\<lparr> addonBoxes := ?bs \<rparr>)"
    using assms(3) by (simp add: clickAddon_def t)
  have res: "addonBoxes (clickAddon i p) = uncheck b ?bs"
    unfolding click using assms(1)
    by (auto simp: handleAddonChange_def Let_def addonBoxes_calculateQuote)
  have ne: "a \<noteq> b"
    using assms(1) by auto
  have "set (selectedAddons (clickAddon i p)) = insert a (set (selectedAddons p) - {b})"
    unfolding set_selectedAddons res checkedSet_uncheck [OF d] on
    using ne by auto
  then show ?thesis
    using ne by auto
qed

theorem exclusive_addon_groups_witness:
  "''audio'' \<in> set (selectedAddons (clickAddon 0
      (blankPage\<lparr> addonBoxes := [(''audio'', False), (''audio_video'', True),
         (''timestamp'', True)] \<rparr>)))
   \<and> ''audio_video'' \<notin> set (selectedAddons (clickAddon 0
      (blankPage\<lparr> addonBoxes := [(''audio'', False), (''audio_video'', True),
         (''timestamp'', True)] \<rparr>)))
   \<and> set (selectedAddons (clickAddon 1
      (blankPage\<lparr> addonBoxes := [(''same_day_delivery'', True), (''24hr_delivery'', False),
         (''interpreter'', True)] \<rparr>))) = {''24hr_delivery'', ''interpreter''}
   \<and> set (selectedAddons (clickAddon 2
      (blankPage\<lparr> addonBoxes := [(''archive_monthly'', True), (''audio'', True),
         (''archive_yearly'', False)] \<rparr>))) = {''archive_yearly'', ''audio''}"
proof -
  have sel: "selectedAddons (blankPage\<lparr> addonBoxes := [(''audio'', False),
        (''audio_video'', True), (''timestamp'', True)] \<rparr>)
      = [''audio_video'', ''timestamp'']"
    "selectedAddons (blankPage\<lparr> addonBoxes := [(''same_day_delivery'', True),
        (''24hr_delivery'', False), (''interpreter'', True)] \<rparr>)
      = [''same_day_delivery'', ''interpreter'']"
    "selectedAddons (blankPage\<lparr> addonBoxes := [(''archive_monthly'', True),
        (''audio'', True), (''archive_yearly'', False)] \<rparr>)
      = [''archive_monthly'', ''audio'']"
    by (simp_all add: selectedAddons_def checkedBoxes_def)
  show ?thesis
    using exclusive_addon_groups
        [where a = "''audio''" and b = "''audio_video''" and i = 0
          and p = "blankPage\<lparr> addonBoxes := [(''audio'', False), (''audio_video'', True),
            (''timestamp'', True)] \<rparr>"]
      exclusive_addon_groups
        [where a = "''24hr_delivery''" and b = "''same_day_delivery''" and i = 1
          and p = "blankPage\<lparr> addonBoxes := [(''same_day_delivery'', True),
            (''24hr_delivery'', False), (''interpreter'', True)] \<rparr>"]
      exclusive_addon_groups
        [where a = "''archive_yearly''" and b = "''archive_monthly''" and i = 2
          and p = "blankPage\<lparr> addonBoxes := [(''archive_monthly'', True), (''audio'', True),
            (''archive_yearly'', False)] \<rparr>"]
    by (simp add: sel)
qed

subsection \<open>Scenario 4: an apostille needs its region\<close>

text \<open>
  Claim C6. On step 1 of a form that has its step 1, with service type \<^verbatim>\<open>apostille\<close>
  and no region chosen, a click on a next button is rejected without a thrown error:
  the handler returns a page whose current step, steps and control values are those
  before, whose region select carries the class \<^verbatim>\<open>error\<close>, and whose last notification
  is the error message. Once a region is chosen on that page, the same click succeeds
  and the current step is the requested one, provided that step 1 then has no
  required field that is rendered and empty (the required fields come from the markup
  of the form, which the script does not fix; the spec requires the region only).
\<close>

theorem advance_requires_region:
  assumes "currentStep p = 1"
    and "list_ex (\<lambda>st. fst st = 1) (steps p)"
    and "cvalue (serviceTypeSelect p) = ''apostille''"
    and "cvalue (regionSelect p) = []"
  shows "\<exists>p'. btnNextClick n p = Inr p'
    \<and> currentStep p' = currentStep p \<and> steps p' = steps p
    \<and> progressSteps p' = progressSteps p
    \<and> map cvalue (allControls p') = map cvalue (allControls p)
    \<and> errorClass (regionSelect p')
    \<and> last (notifications p') = (''Please fill in all required fields'', ''error'')
    \<and> (\<forall>r. r \<noteq> [] \<and> \<not> list_ex (fieldFails 1) (allControls (setRegion r p)) \<longrightarrow>
          (\<exists>p''. btnNextClick n (setRegion r p') = Inr p'' \<and> currentStep p'' = n))"
proof -
  let ?p' = "rejectedPage p"
  have click: "btnNextClick n p = Inr ?p'"
    using assms by (rule btnNextClick_rejected)
  have same: "currentStep ?p' = currentStep p" "steps ?p' = steps p"
    "progressSteps ?p' = progressSteps p"
    by (simp_all add: rejectedPage_def showNotification_def)
  have vals: "map cvalue (allControls ?p') = map cvalue (allControls p)"
    by (cases "sessionHoursSelect p")
      (simp_all add: rejectedPage_def showNotification_def allControls_def cvalue_markField
        comp_def)
  have signal: "errorClass (regionSelect ?p')"
    "last (notifications ?p') = (''Please fill in all required fields'', ''error'')"
    by (simp_all add: rejectedPage_def showNotification_def)
  have again: "\<exists>p''. btnNextClick n (setRegion r ?p') = Inr p'' \<and> currentStep p'' = n"
    if r: "r \<noteq> [] \<and> \<not> list_ex (fieldFails 1) (allControls (setRegion r p))" for r
  proof -
    let ?q = "setRegion r ?p'"
    have s: "currentStep ?q = 1" "steps ?q = steps p" "cvalue (regionSelect ?q) = r"
      using assms(1) by (simp_all add: setRegion_def rejectedPage_def showNotification_def)
    have "list_ex (\<lambda>st. fst st = currentStep ?q) (steps ?q)"
      using assms(2) by (simp add: s)
    moreover have "\<not> list_ex (fieldFails (currentStep ?q)) (allControls ?q)"
      using r by (simp add: s allControls_rejected_fails)
    moreover have "\<not> (currentStep ?q = 1 \<and> cvalue (serviceTypeSelect ?q) = ''apostille''
        \<and> cvalue (regionSelect ?q) = [])"
      using r by (simp add: s)
    ultimately show ?thesis
      by (rule btnNextClick_valid)
  qed
  from click same vals signal again show ?thesis
    by blast
qed

theorem advance_requires_region_witness:
  "\<exists>p'. btnNextClick 2 (blankPage\<lparr> serviceTypeSelect := plainControl ''apostille'' \<rparr>) = Inr p'
     \<and> currentStep p' = 1 \<and> errorClass (regionSelect p')
     \<and> (\<exists>p''. btnNextClick 2 (setRegion ''nj'' p') = Inr p'' \<and> currentStep p'' = 2)"
proof -
  let ?P = "blankPage\<lparr> serviceTypeSelect := plainControl ''apostille'' \<rparr>"
  have h: "currentStep ?P = 1" "list_ex (\<lambda>st. fst st = 1) (steps ?P)"
    "cvalue (serviceTypeSelect ?P) = ''apostille''" "cvalue (regionSelect ?P) = []"
    by (simp_all add: sample_defs)
  have ok: "''nj'' \<noteq> [] \<and> \<not> list_ex (fieldFails 1) (allControls (setRegion ''nj'' ?P))"
    by (simp add: sample_defs setRegion_def allControls_def fieldFails_def)
  from advance_requires_region [OF h, of 2] ok h(1) show ?thesis
    by metis
qed

end
